theory Spec2Isabelle
  imports Main
begin

section \<open>Python values that cross the handlers\<close>

text \<open>
  The handlers of \<^verbatim>\<open>app.py\<close> receive the parsed JSON body of a request and hand
  JSON back through \<^verbatim>\<open>jsonify\<close>. A parsed body is a Python value: \<^verbatim>\<open>None\<close>, a
  \<^verbatim>\<open>bool\<close>, an \<^verbatim>\<open>int\<close>, a \<^verbatim>\<open>float\<close>, a \<^verbatim>\<open>str\<close>, a \<^verbatim>\<open>list\<close> or a \<^verbatim>\<open>dict\<close> with string
  keys. A float is kept by its \<^verbatim>\<open>repr\<close> (the shortest decimal text that reads back as
  the same float), which is all the handlers ever use of it. A dict is kept as the list
  of its items; its keys are distinct, as they are in a Python dict. Python's \<^verbatim>\<open>str\<close> is
  modelled by \<^typ>\<open>string\<close>, one \<^typ>\<open>char\<close> for each code point below 256.
\<close>

datatype json =
    JNull
  | JBool bool
  | JInt int
  | JFloat string
  | JStr string
  | JArr "json list"
  | JObj "(string \<times> json) list"

text \<open>
  An exception is kept by the name of its class and by \<^verbatim>\<open>str(e)\<close>. Only instances of
  \<^verbatim>\<open>Exception\<close> are represented: they are what \<^verbatim>\<open>except Exception\<close> catches.
\<close>

datatype exn = Exn (exn_class: string) (exn_str: string)

text \<open>Truth value testing, as \<^verbatim>\<open>not x\<close> and \<^verbatim>\<open>if x\<close> use it.\<close>

fun truthy :: "json \<Rightarrow> bool" where
  "truthy JNull = False"
| "truthy (JBool b) = b"
| "truthy (JInt i) = (i \<noteq> 0)"
| "truthy (JFloat r) = (r \<noteq> ''0.0'' \<and> r \<noteq> ''-0.0'')"
| "truthy (JStr s) = (s \<noteq> [])"
| "truthy (JArr xs) = (xs \<noteq> [])"
| "truthy (JObj kvs) = (kvs \<noteq> [])"

text \<open>\<^verbatim>\<open>d.get(key)\<close>: the value stored under the key, \<^verbatim>\<open>None\<close> when there is none.\<close>

definition dict_get :: "(string \<times> json) list \<Rightarrow> string \<Rightarrow> json" where
  "dict_get kvs key = (case map_of kvs key of None \<Rightarrow> JNull | Some v \<Rightarrow> v)"

text \<open>\<^verbatim>\<open>sep.join(parts)\<close>.\<close>

fun py_join :: "string \<Rightarrow> string list \<Rightarrow> string" where
  "py_join sep [] = []"
| "py_join sep [x] = x"
| "py_join sep (x # y # ys) = x @ sep @ py_join sep (y # ys)"

subsection \<open>\<^verbatim>\<open>repr\<close> and \<^verbatim>\<open>str\<close>\<close>

definition hex_digit :: "nat \<Rightarrow> char" where
  "hex_digit n = ''0123456789abcdef'' ! (n mod 16)"

definition printable :: "char \<Rightarrow> bool" where
  "printable c =
     (let n = (of_char c :: nat)
      in if n < 127 then 32 \<le> n else 161 \<le> n \<and> n \<noteq> 173)"

text \<open>
  One character of the \<^verbatim>\<open>repr\<close> of a string delimited by the quote \<open>q\<close>: the backslash
  and the delimiter are escaped, tab, newline and carriage return have their letters,
  any other character that is not printable becomes \<^verbatim>\<open>\xhh\<close>.
\<close>

definition repr_char :: "char \<Rightarrow> char \<Rightarrow> string" where
  "repr_char q c =
     (if c = CHR 0x5C then [CHR 0x5C, CHR 0x5C]
      else if c = q then [CHR 0x5C, q]
      else if c = CHR 0x09 then [CHR 0x5C, CHR ''t'']
      else if c = CHR 0x0A then [CHR 0x5C, CHR ''n'']
      else if c = CHR 0x0D then [CHR 0x5C, CHR ''r'']
      else if printable c then [c]
      else [CHR 0x5C, CHR ''x'',
            hex_digit ((of_char c :: nat) div 16), hex_digit ((of_char c :: nat) mod 16)])"

text \<open>
  \<^verbatim>\<open>repr\<close> of a string: single quotes, unless the string holds a single quote and no
  double quote.
\<close>

definition repr_str :: "string \<Rightarrow> string" where
  "repr_str s =
     (let q = (if CHR 0x27 \<in> set s \<and> CHR 0x22 \<notin> set s then CHR 0x22 else CHR 0x27)
      in [q] @ concat (map (repr_char q) s) @ [q])"

fun digits :: "nat \<Rightarrow> string" where
  "digits n =
     (if n < 10 then [''0123456789'' ! n]
      else digits (n div 10) @ [''0123456789'' ! (n mod 10)])"

declare digits.simps [simp del]

definition repr_int :: "int \<Rightarrow> string" where
  "repr_int i = (if i < 0 then ''-'' @ digits (nat (- i)) else digits (nat i))"

fun repr :: "json \<Rightarrow> string" where
  "repr JNull = ''None''"
| "repr (JBool b) = (if b then ''True'' else ''False'')"
| "repr (JInt i) = repr_int i"
| "repr (JFloat r) = r"
| "repr (JStr s) = repr_str s"
| "repr (JArr xs) = ''['' @ py_join '', '' (map repr xs) @ '']''"
| "repr (JObj kvs) =
     ''{'' @ py_join '', '' (map (\<lambda>(k, v). repr_str k @ '': '' @ repr v) kvs) @ ''}''"

text \<open>\<^verbatim>\<open>str(x)\<close>, which is also what a replacement field with no format spec inserts.\<close>

definition str :: "json \<Rightarrow> string" where
  "str x = (case x of JStr s \<Rightarrow> s | _ \<Rightarrow> repr x)"

text \<open>\<^verbatim>\<open>str\<close> of a tuple of two strings, as an f-string renders it.\<close>

definition str_tuple :: "string \<times> string \<Rightarrow> string" where
  "str_tuple t = ''('' @ repr_str (fst t) @ '', '' @ repr_str (snd t) @ '')''"

subsection \<open>\<^verbatim>\<open>str.format\<close>\<close>

text \<open>
  \<^verbatim>\<open>template.format(prompt=value)\<close> scans the template: \<^verbatim>\<open>{{\<close> and \<^verbatim>\<open>}}\<close> stand for one
  brace, \<^verbatim>\<open>{name}\<close> is a replacement field, a brace on its own is a \<^verbatim>\<open>ValueError\<close>. The
  only keyword argument is \<^verbatim>\<open>prompt\<close> and there is no positional one, so an empty or
  numeric field name is an \<^verbatim>\<open>IndexError\<close> and any other name a \<^verbatim>\<open>KeyError\<close>. The text
  inserted for a field is not scanned again. Fields with a conversion, a format spec or
  an attribute lookup occur in no template of this program and are read as plain names.
\<close>

datatype scan_mode = Literal | Field string

fun format_scan :: "scan_mode \<Rightarrow> string \<Rightarrow> string \<Rightarrow> exn + string" where
  "format_scan Literal [] v = Inr []"
| "format_scan Literal (c # cs) v =
     (if c = CHR ''{'' then
        (case cs of
           [] \<Rightarrow> Inl (Exn ''ValueError'' (''Single '' @ [CHR 0x27] @ ''{'' @ [CHR 0x27] @ '' encountered in format string''))
         | d # ds \<Rightarrow>
             if d = CHR ''{'' then map_sum id ((#) CHR ''{'') (format_scan Literal ds v)
             else format_scan (Field []) cs v)
      else if c = CHR ''}'' then
        (case cs of
           [] \<Rightarrow> Inl (Exn ''ValueError'' (''Single '' @ [CHR 0x27] @ ''}'' @ [CHR 0x27] @ '' encountered in format string''))
         | d # ds \<Rightarrow>
             if d = CHR ''}'' then map_sum id ((#) CHR ''}'') (format_scan Literal ds v)
             else Inl (Exn ''ValueError'' (''Single '' @ [CHR 0x27] @ ''}'' @ [CHR 0x27] @ '' encountered in format string'')))
      else map_sum id ((#) c) (format_scan Literal cs v))"
| "format_scan (Field name) [] v =
     Inl (Exn ''ValueError'' (''expected '' @ [CHR 0x27] @ ''}'' @ [CHR 0x27] @ '' before end of string''))"
| "format_scan (Field name) (c # cs) v =
     (if c = CHR ''}'' then
        (if name = ''prompt'' then map_sum id ((@) v) (format_scan Literal cs v)
         else if name = [] then
           Inl (Exn ''IndexError'' ''Replacement index 0 out of range for positional args tuple'')
         else if list_all (\<lambda>d. d \<in> set ''0123456789'') name then
           Inl (Exn ''IndexError'' (''Replacement index '' @ name @ '' out of range for positional args tuple''))
         else Inl (Exn ''KeyError'' (repr_str name)))
      else format_scan (Field (name @ [c])) cs v)"

definition format :: "string \<Rightarrow> json \<Rightarrow> exn + string" where
  "format template prompt = format_scan Literal template (str prompt)"

text \<open>A list comprehension whose element expression may raise: the first exception wins.\<close>

fun collect :: "(exn + 'a) list \<Rightarrow> exn + 'a list" where
  "collect [] = Inr []"
| "collect (r # rs) =
     (case r of
        Inl e \<Rightarrow> Inl e
      | Inr x \<Rightarrow> (case collect rs of Inl e \<Rightarrow> Inl e | Inr xs \<Rightarrow> Inr (x # xs)))"

section \<open>The model client\<close>

text \<open>
  A call \<^verbatim>\<open>messages.create(...)\<close> sends a request record and either raises or returns a
  message whose \<^verbatim>\<open>content\<close> the program reads. The content is a list of blocks, of which
  a text block has a \<^verbatim>\<open>text\<close> attribute and any other block (kept by its class name) has
  none; \<^verbatim>\<open>grade_completion\<close> also provides for a content that is not a list, taken here
  to be a plain string. The service behind the client is a parameter of the model.
\<close>

record message =
  role :: string
  content :: string

record client_request =
  model :: string
  max_tokens :: nat
  temperature :: string
  system :: "string option"
  messages :: "message list"

datatype block = TextBlock string | OtherBlock string

datatype completion = ContentList "block list" | ContentStr string

type_synonym client = "client_request \<Rightarrow> exn + completion"

definition attribute_error :: "string \<Rightarrow> string \<Rightarrow> exn" where
  "attribute_error cls attr =
     Exn ''AttributeError''
       ([CHR 0x27] @ cls @ [CHR 0x27] @ '' object has no attribute '' @ [CHR 0x27] @ attr @ [CHR 0x27])"

text \<open>\<^verbatim>\<open>block.text\<close>.\<close>

fun block_text :: "block \<Rightarrow> exn + string" where
  "block_text (TextBlock t) = Inr t"
| "block_text (OtherBlock cls) = Inl (attribute_error cls ''text'')"

section \<open>Effects\<close>

text \<open>
  What a handler does besides returning: records sent to the root logger
  (\<^verbatim>\<open>logging.info\<close>, ...), records sent to the \<^verbatim>\<open>gunicorn.error\<close> logger (\<^verbatim>\<open>logger.info\<close>,
  ...), text printed, and calls of the model client. A handler returns the events in
  the order they happened, together with its result.
\<close>

datatype level = INFO | WARNING | ERROR

datatype event =
    Logging level string
  | Logger level string
  | Print string
  | Create client_request

fun calls :: "event list \<Rightarrow> client_request list" where
  "calls [] = []"
| "calls (Create r # es) = r # calls es"
| "calls (_ # es) = calls es"

section \<open>The program: \<^verbatim>\<open>app.py\<close>\<close>

subsection \<open>Start of the module\<close>

text \<open>
  \<^verbatim>\<open>load_dotenv()\<close> adds the variables of the \<^verbatim>\<open>.env\<close> file (none when there is no file)
  to the environment of the process, keeping every variable that is already set. The
  module then reads \<^verbatim>\<open>ANTHROPIC_API_KEY\<close>, raises \<^verbatim>\<open>ValueError\<close> when \<^verbatim>\<open>os.environ.get\<close>
  gives \<^verbatim>\<open>None\<close>, and builds the client from the key otherwise.
\<close>

type_synonym environ = "string \<rightharpoonup> string"

definition load_dotenv :: "environ \<Rightarrow> environ \<Rightarrow> environ" where
  "load_dotenv dotenv environ = dotenv ++ environ"

datatype anthropic = Anthropic (api_key: string)

definition module_start :: "environ \<Rightarrow> environ \<Rightarrow> exn + anthropic" where
  "module_start dotenv environ =
     (case load_dotenv dotenv environ ''ANTHROPIC_API_KEY'' of
        None \<Rightarrow> Inl (Exn ''ValueError'' ''Anthropic API key not found in environment variables.'')
      | Some API_KEY \<Rightarrow> Inr (Anthropic API_KEY))"

subsection \<open>Constants\<close>

definition SYSTEM_ROLE :: string where
  "SYSTEM_ROLE = py_join ''\<newline>''
    [[],
     ''You are an expert in ethics conducting a comprehensive analysis of this situation. '',
     ''Follow established ethical frameworks and principles. '',
     ''Please keep your responses very concise and precise. '',
     ''Always use markdown format for clarity (e.g., headings, code blocks, bold, > quotes, - unordered lists). '',
     ''For each step, please provide a detailed analysis in the corresponding tags (<problem>, <principles>, <dimensions>, <actions>, <consequences>, or <answer>). '',
     ''For example, a well-structured response for the first step might look like this: '',
     ''<step_tag>'',
     ''<problem>'',
     ''My analysis of this step involves considering [insert relevant factors or principles].'',
     ''This leads me to conclude that [insert conclusion].'',
     ''</problem>'',
     ''[Insert response]'',
     ''</step_tag>'',
     ''Please ONLY use '' @ [CHR 0x60] @ ''<answer>'' @ [CHR 0x60] @ '' tags once, ALWAYS around final response. '',
     ''If you are unable to respond, reply '' @ [CHR 0x27] @ ''incomplete'' @ [CHR 0x27] @ '' with no explanation.'' @ [CHR 0x22],
     []]"

definition STEPS :: "(string \<times> string) list" where
  "STEPS =
   [(''Identify the ethical problem or dilemma in the following situation: {prompt}.'',
     ''<problem>''),
    (''Apply relevant ethical codes, principles, or frameworks to the identified problem'',
     ''<principles>''),
    (''Considering the principles, determine the nature and dimensions of the ethical dilemma, considering all stakeholders and potential consequences'',
     ''<dimensions>''),
    (''Given the dimensions, generate potential courses of action to address the ethical dilemma'',
     ''<actions>''),
    (''For each course of action, what are the potential consequences, and how do they align with the principles?'',
     ''<consequences>''),
    (''Based on the analysis, what is the most ethically justifiable course of action, and why does it align with the relevant principles and minimize harm to stakeholders?'',
     ''<answer>'')]"

subsection \<open>Grading\<close>

text \<open>The f-string of \<^verbatim>\<open>build_grader_prompt\<close>, line by line, and the one message built from it.\<close>

definition build_grader_prompt :: "json \<Rightarrow> json \<Rightarrow> message list" where
  "build_grader_prompt answer rubric =
     (let user_content = py_join ''\<newline>''
        [''You will be provided an answer that an assistant gave to one step (prompt) in its chain-of-thought reasoning of this ethical dilemma, and a rubric that instructs you on what makes the answer correct or incorrect.'',
         ''    '',
         ''    Here is the answer that the assistant gave to the question.'',
         ''    <answer>'' @ str answer @ ''</answer>'',
         ''    '',
         ''    Here is the rubric on what makes the answer correct or incorrect.'',
         ''    <rubric>'' @ str rubric @ ''</rubric>'',
         ''    '',
         ''    An answer is correct if it mostly meets the rubric criteria, and otherwise it is incorrect.'',
         ''    First, think through whether the answer is correct or incorrect based on the rubric inside <thinking></thinking> tags. Then assign an overall score out of 100 in <score> tags. Finally, output either '' @ [CHR 0x27] @ ''correct'' @ [CHR 0x27] @ '' if the answer is correct or '' @ [CHR 0x27] @ ''incorrect'' @ [CHR 0x27] @ '' if the answer is incorrect inside <correctness></correctness> tags.'']
      in [\<lparr>role = ''user'', content = user_content\<rparr>])"

text \<open>
  \<^verbatim>\<open>get_completion\<close> appends the \<^verbatim>\<open>text\<close> of every element and joins the pieces with the
  empty string. Iterating over a string yields its characters, which are strings and
  have no \<^verbatim>\<open>text\<close>.
\<close>

definition get_completion :: "completion \<Rightarrow> exn + string" where
  "get_completion msgs =
     (case msgs of
        ContentList blocks \<Rightarrow>
          (case collect (map block_text blocks) of
             Inl e \<Rightarrow> Inl e
           | Inr completion \<Rightarrow> Inr (py_join [] completion))
      | ContentStr s \<Rightarrow> (if s = [] then Inr [] else Inl (attribute_error ''str'' ''text'')))"

text \<open>
  \<^verbatim>\<open>grade_completion\<close>: everything happens inside \<^verbatim>\<open>try\<close>; an exception is printed and
  raised again as a \<^verbatim>\<open>RuntimeError\<close> whose message carries the first one's.
\<close>

definition grade_completion :: "client \<Rightarrow> json \<Rightarrow> json \<Rightarrow> event list \<times> (exn + json)" where
  "grade_completion CLIENT output rubric =
     (let request = \<lparr>model = ''claude-3-opus-20240229'', max_tokens = 256,
                     temperature = ''0.2'', system = None,
                     messages = build_grader_prompt output rubric\<rparr>;
          attempt =
            (case CLIENT request of
               Inl e \<Rightarrow> Inl e
             | Inr (ContentList blocks) \<Rightarrow>
                 (case collect (map block_text blocks) of
                    Inl e \<Rightarrow> Inl e
                  | Inr texts \<Rightarrow> Inr (py_join [] texts))
             | Inr (ContentStr completion) \<Rightarrow> Inr completion)
      in case attempt of
           Inr completion_text \<Rightarrow>
             ([Create request], Inr (JObj [(''response'', JStr completion_text)]))
         | Inl e \<Rightarrow>
             ([Create request, Print (''Detailed error: '' @ exn_str e @ ''\<newline>'')],
              Inl (Exn ''RuntimeError'' (''Error during grading: '' @ exn_str e))))"

subsection \<open>Analysis\<close>

text \<open>
  Line 111: every template is formatted with the situation. Line 112: the formatted
  steps are zipped with \<^verbatim>\<open>STEPS\<close> itself, so the name \<^verbatim>\<open>tag\<close> of the comprehension is bound
  to a whole \<^verbatim>\<open>(template, tag)\<close> tuple, and the f-string renders that tuple; the pieces are
  joined with newlines.
\<close>

definition step_templates :: "json \<Rightarrow> exn + string list" where
  "step_templates prompt = collect (map (\<lambda>(step, tag). format step prompt) STEPS)"

definition combined_prompt :: "json \<Rightarrow> exn + string" where
  "combined_prompt prompt =
     (case step_templates prompt of
        Inl e \<Rightarrow> Inl e
      | Inr templates \<Rightarrow>
          Inr (py_join ''\<newline>''
                 (map (\<lambda>(step, tag). step @ ''\<newline>'' @ str_tuple tag) (zip templates STEPS))))"

definition unexpected :: "exn \<Rightarrow> string" where
  "unexpected e = ''An unexpected error occurred: '' @ exn_str e"

definition ethical_analysis :: "json \<Rightarrow> client \<Rightarrow> event list \<times> json" where
  "ethical_analysis prompt anthropic_client =
     (let failed = (\<lambda>events e.
            (events @ [Logging ERROR (unexpected e), Logger ERROR (unexpected e)],
             JObj [(''error'', JObj [(''message'', JStr (exn_str e)),
                                    (''type'', JStr ''internal_server_error'')])]))
      in case combined_prompt prompt of
           Inl e \<Rightarrow> failed [] e
         | Inr text \<Rightarrow>
             (let request = \<lparr>model = ''claude-3-haiku-20240307'', max_tokens = 2048,
                             temperature = ''0.2'', system = Some SYSTEM_ROLE,
                             messages = [\<lparr>role = ''user'', content = text\<rparr>]\<rparr>
              in case anthropic_client request of
                   Inl e \<Rightarrow> failed [Create request] e
                 | Inr response \<Rightarrow>
                     (case get_completion response of
                        Inl e \<Rightarrow> failed [Create request] e
                      | Inr analysis_result \<Rightarrow>
                          ([Create request], JObj [(''analysis'', JStr analysis_result)]))))"

subsection \<open>Requests and responses\<close>

text \<open>
  \<^verbatim>\<open>request.json\<close> either raises (the body is not JSON, or its content type is not) or
  gives the parsed body. What a view returns is \<^verbatim>\<open>jsonify(x)\<close>, with status 200 unless the
  view pairs it with another status, or a file sent by \<^verbatim>\<open>send_from_directory\<close>; an
  HTTP exception that leaves the view becomes the response with its status code.
\<close>

datatype response =
    JsonResponse nat json
  | FileResponse string
  | HttpError nat

fun status :: "response \<Rightarrow> nat" where
  "status (JsonResponse code j) = code"
| "status (FileResponse data) = 200"
| "status (HttpError code) = code"

fun type_name :: "json \<Rightarrow> string" where
  "type_name JNull = ''NoneType''"
| "type_name (JBool b) = ''bool''"
| "type_name (JInt i) = ''int''"
| "type_name (JFloat r) = ''float''"
| "type_name (JStr s) = ''str''"
| "type_name (JArr xs) = ''list''"
| "type_name (JObj kvs) = ''dict''"

text \<open>\<^verbatim>\<open>data.get(key)\<close> on whatever \<^verbatim>\<open>request.json\<close> gave: only a dict has the method.\<close>

definition get :: "json \<Rightarrow> string \<Rightarrow> exn + json" where
  "get data key =
     (case data of
        JObj kvs \<Rightarrow> Inr (dict_get kvs key)
      | _ \<Rightarrow> Inl (attribute_error (type_name data) ''get''))"

subsection \<open>\<^verbatim>\<open>POST /analysis\<close>\<close>

definition analyze_ethics :: "client \<Rightarrow> exn + json \<Rightarrow> event list \<times> response" where
  "analyze_ethics CLIENT request_json =
     (case (case request_json of Inl e \<Rightarrow> Inl e | Inr data \<Rightarrow> get data ''situation'') of
        Inl e \<Rightarrow>
          ([Logging ERROR (unexpected e), Logger ERROR (unexpected e)],
           JsonResponse 500
             (JObj [(''type'', JStr ''error''),
                    (''error'', JObj [(''type'', JStr ''internal_server_error''),
                                     (''message'', JStr (exn_str e))])]))
      | Inr situation \<Rightarrow>
          if \<not> truthy situation then
            ([Logging ERROR ''Situation not provided'', Logger ERROR ''Situation not provided''],
             JsonResponse 400
               (JObj [(''type'', JStr ''error''),
                      (''error'', JObj [(''type'', JStr ''invalid_request_error''),
                                       (''message'', JStr ''Situation not provided.'')])]))
          else
            (case ethical_analysis situation CLIENT of
               (events, analysis_results) \<Rightarrow>
                 ([Logging INFO ''Performing ethical analysis'',
                   Logger INFO ''Performing ethical analysis''] @ events @
                  [Logging INFO ''Ethical analysis completed'',
                   Logger INFO ''Ethical analysis completed''],
                  JsonResponse 200 analysis_results)))"

subsection \<open>\<^verbatim>\<open>POST /eval\<close>\<close>

text \<open>
  Lines 177 to 180: the body and the three \<^verbatim>\<open>data.get\<close> calls, any of which may raise.
\<close>

definition fields :: "exn + json \<Rightarrow> exn + json \<times> json \<times> json" where
  "fields request_json =
     (case request_json of
        Inl e \<Rightarrow> Inl e
      | Inr data \<Rightarrow>
          (case get data ''prompt'' of
             Inl e \<Rightarrow> Inl e
           | Inr prompt \<Rightarrow>
               (case get data ''completion'' of
                  Inl e \<Rightarrow> Inl e
                | Inr completion \<Rightarrow>
                    (case get data ''rubric'' of
                       Inl e \<Rightarrow> Inl e
                     | Inr rubric \<Rightarrow> Inr (prompt, completion, rubric)))))"

definition evaluate_completion :: "client \<Rightarrow> exn + json \<Rightarrow> event list \<times> response" where
  "evaluate_completion CLIENT request_json =
     (let failed = (\<lambda>events e.
            (events @ [Logging ERROR (unexpected e), Logger ERROR (unexpected e)],
             JsonResponse 500 (JObj [(''error'', JStr (exn_str e))])))
      in case fields request_json of
           Inl e \<Rightarrow> failed [] e
         | Inr (prompt, completion, rubric) \<Rightarrow>
             if \<not> truthy prompt \<or> \<not> truthy completion \<or> \<not> truthy rubric then
               ([Logging ERROR ''Prompt, completion, or rubric not provided'',
                 Logger ERROR ''Prompt, completion, or rubric not provided''],
                JsonResponse 400
                  (JObj [(''error'', JStr ''Prompt, completion, or rubric not provided'')]))
             else
               (case grade_completion CLIENT completion rubric of
                  (events, Inl e) \<Rightarrow>
                    failed ([Logging INFO ''Evaluating completion'',
                             Logger INFO ''Evaluating completion''] @ events) e
                | (events, Inr result) \<Rightarrow>
                    ([Logging INFO ''Evaluating completion'',
                      Logger INFO ''Evaluating completion''] @ events @
                     [Logging INFO ''Completion evaluation completed'',
                      Logger INFO ''Completion evaluation completed''],
                     JsonResponse 200 result)))"

subsection \<open>\<^verbatim>\<open>GET /api/steps\<close>\<close>

definition get_steps :: "event list \<times> response" where
  "get_steps =
     (let steps_with_tags =
            map (\<lambda>(step, tag). JArr [JStr (''<prompt>'' @ step @ ''</prompt>''), JStr tag]) STEPS
      in ([], JsonResponse 200 (JArr steps_with_tags)))"

subsection \<open>The static files\<close>

text \<open>
  The file system is a parameter: what the operating system finds under a path, a
  regular file with its content, a directory, or nothing. \<^verbatim>\<open>os.path.exists\<close> holds for
  files and directories alike, \<^verbatim>\<open>os.path.isfile\<close> for regular files only.
\<close>

datatype node = File string | Directory

type_synonym filesystem = "string \<Rightarrow> node option"

definition exists :: "filesystem \<Rightarrow> string \<Rightarrow> bool" where
  "exists fs path = (case fs path of None \<Rightarrow> False | Some n \<Rightarrow> True)"

text \<open>\<^verbatim>\<open>s.split('/')\<close>.\<close>

fun split :: "string \<Rightarrow> string list" where
  "split [] = [[]]"
| "split (c # cs) =
     (if c = CHR ''/'' then [] # split cs
      else (case split cs of [] \<Rightarrow> [[c]] | w # ws \<Rightarrow> (c # w) # ws))"

text \<open>
  \<^verbatim>\<open>posixpath.normpath\<close>: empty and \<^verbatim>\<open>.\<close> components are dropped, \<^verbatim>\<open>..\<close> removes the
  component before it, and is kept where there is none to remove in a relative path.
\<close>

fun normalize :: "bool \<Rightarrow> string list \<Rightarrow> string list \<Rightarrow> string list" where
  "normalize initial_slashes new_comps [] = new_comps"
| "normalize initial_slashes new_comps (part # comps) =
     (if part = [] \<or> part = ''.'' then normalize initial_slashes new_comps comps
      else if part \<noteq> ''..'' \<or> (\<not> initial_slashes \<and> new_comps = [])
              \<or> (new_comps \<noteq> [] \<and> last new_comps = ''..'')
        then normalize initial_slashes (new_comps @ [part]) comps
      else if new_comps \<noteq> [] then normalize initial_slashes (butlast new_comps) comps
      else normalize initial_slashes new_comps comps)"

definition normpath :: "string \<Rightarrow> string" where
  "normpath path =
     (if path = [] then ''.''
      else
        (let initial_slashes =
               (if take 1 path = ''/'' then
                  (if take 2 path = ''//'' \<and> take 3 path \<noteq> ''///'' then 2 else 1)
                else (0::nat));
             joined = py_join ''/'' (normalize (0 < initial_slashes) [] (split path));
             result = replicate initial_slashes CHR ''/'' @ joined
         in if result = [] then ''.'' else result))"

text \<open>
  \<^verbatim>\<open>safe_join\<close> of one path onto a directory, and \<^verbatim>\<open>send_from_directory\<close> on top of
  it: a path that leaves the directory, and a path that is no regular file, raise
  \<^verbatim>\<open>NotFound\<close>, which the views do not catch.
\<close>

definition join :: "string \<Rightarrow> string \<Rightarrow> string" where
  "join a b =
     (if take 1 b = ''/'' then b
      else if a = [] \<or> last a = CHR ''/'' then a @ b
      else a @ ''/'' @ b)"

definition safe_join :: "string \<Rightarrow> string \<Rightarrow> string option" where
  "safe_join directory filename =
     (let directory = (if directory = [] then ''.'' else directory);
          filename = (if filename \<noteq> [] then normpath filename else filename)
      in if take 1 filename = ''/'' \<or> filename = ''..'' \<or> take 3 filename = ''../''
         then None
         else Some (join directory filename))"

definition send_from_directory :: "filesystem \<Rightarrow> string \<Rightarrow> string \<Rightarrow> response" where
  "send_from_directory fs directory path =
     (case safe_join directory path of
        None \<Rightarrow> HttpError 404
      | Some path_str \<Rightarrow>
          (case fs path_str of
             Some (File data) \<Rightarrow> FileResponse data
           | _ \<Rightarrow> HttpError 404))"

text \<open>The view \<^verbatim>\<open>serve\<close>, for \<^verbatim>\<open>GET /\<close> (the path is empty) and \<^verbatim>\<open>GET /<path>\<close>.\<close>

definition serve :: "string \<Rightarrow> filesystem \<Rightarrow> string \<Rightarrow> event list \<times> response" where
  "serve static_folder fs path =
     (if path \<noteq> [] \<and> exists fs (static_folder @ ''/'' @ path) then
        ([Logger INFO (''Serving path: '' @ path), Logging INFO (''Serving path: '' @ path)],
         send_from_directory fs static_folder path)
      else
        ([Logger INFO (''Serving path: '' @ path), Logging INFO (''Serving path: '' @ path),
          Logging WARNING (''Serving index.html for path: '' @ path),
          Logger WARNING (''Serving index.html for path: '' @ path)],
         send_from_directory fs static_folder ''index.html''))"

section \<open>Notions of the specification\<close>

text \<open>The user texts handed to the model client, in the order of the calls.\<close>

fun prompts :: "event list \<Rightarrow> string list" where
  "prompts [] = []"
| "prompts (Create r # es) = map content (messages r) @ prompts es"
| "prompts (_ # es) = prompts es"

text \<open>
  The specification speaks of a template ``with the situation substituted for its
  placeholder'': every occurrence of \<^verbatim>\<open>{prompt}\<close> is replaced, nothing else is touched.
\<close>

fun with_situation :: "string \<Rightarrow> string \<Rightarrow> string" where
  "with_situation [] situation = []"
| "with_situation (c # cs) situation =
     (if take 8 (c # cs) = ''{prompt}'' then situation @ with_situation (drop 7 cs) situation
      else c # with_situation cs situation)"

text \<open>
  The prompt as the specification describes it: for each step in order, the substituted
  template, a newline and the tag, all concatenated.
\<close>

definition claimed_prompt :: "string \<Rightarrow> string" where
  "claimed_prompt situation =
     concat (map (\<lambda>(template, tag). with_situation template situation @ ''\<newline>'' @ tag) STEPS)"

text \<open>
  One piece for each step: the substituted template, a newline, and a text \<open>r\<close> that
  closes the piece.
\<close>

definition pieces :: "string \<Rightarrow> string list \<Rightarrow> string list" where
  "pieces situation rest =
     map (\<lambda>((template, tag), r). with_situation template situation @ ''\<newline>'' @ r)
       (zip STEPS rest)"

text \<open>
  The prompt that line 112 is written to build: the pieces joined with newlines, each
  closing with the tag of its step.
\<close>

definition tagged_prompt :: "string \<Rightarrow> string" where
  "tagged_prompt situation = py_join ''\<newline>'' (pieces situation (map snd STEPS))"

text \<open>The error envelope \<^verbatim>\<open>{type, error: {type, message}}\<close> of the specification.\<close>

definition has_key :: "(string \<times> json) list \<Rightarrow> string \<Rightarrow> bool" where
  "has_key kvs key = (case map_of kvs key of None \<Rightarrow> False | Some v \<Rightarrow> True)"

definition envelope :: "json \<Rightarrow> bool" where
  "envelope j =
     (case j of
        JObj kvs \<Rightarrow>
          has_key kvs ''type'' \<and>
          (case map_of kvs ''error'' of
             Some (JObj e) \<Rightarrow> has_key e ''type'' \<and> has_key e ''message''
           | _ \<Rightarrow> False)
      | _ \<Rightarrow> False)"

fun enveloped :: "response \<Rightarrow> bool" where
  "enveloped (JsonResponse code j) = envelope j"
| "enveloped (FileResponse data) = False"
| "enveloped (HttpError code) = False"

text \<open>The flat error body \<^verbatim>\<open>{error: message}\<close>.\<close>

fun flat_error :: "response \<Rightarrow> bool" where
  "flat_error (JsonResponse code (JObj [(key, JStr msg)])) = (key = ''error'')"
| "flat_error _ = False"

text \<open>What \<^verbatim>\<open>POST /eval\<close> does and answers when it refuses a body.\<close>

definition refusal :: "event list \<times> response" where
  "refusal =
     ([Logging ERROR ''Prompt, completion, or rubric not provided'',
       Logger ERROR ''Prompt, completion, or rubric not provided''],
      JsonResponse 400 (JObj [(''error'', JStr ''Prompt, completion, or rubric not provided'')]))"

text \<open>Three model services and a file tree, for the concrete instances below.\<close>

definition quiet_client :: client where
  "quiet_client request = Inr (ContentList [])"

definition failing_client :: client where
  "failing_client request = Inl (Exn ''Exception'' ''boom'')"

definition x_client :: client where
  "x_client request = Inr (ContentList [TextBlock ''X''])"

definition asset_tree :: filesystem where
  "asset_tree path =
     (if path = ''/app/static/index.html'' then Some (File ''<html></html>'')
      else if path = ''/app/static/assets'' then Some Directory
      else None)"

section \<open>Properties\<close>

subsection \<open>Auxiliary facts\<close>

lemma calls_append: "calls (xs @ ys) = calls xs @ calls ys"
  by (induction xs rule: calls.induct) simp_all

lemma prompts_append: "prompts (xs @ ys) = prompts xs @ prompts ys"
  by (induction xs rule: prompts.induct) simp_all

lemma py_join_empty: "py_join [] xs = concat xs"
  by (induction "[] :: string" xs rule: py_join.induct) simp_all

lemma collect_text: "collect (map (block_text \<circ> TextBlock) segments) = Inr segments"
  by (induction segments) simp_all

text \<open>Formatting the six templates with a string never raises, and substitutes.\<close>

lemma step_templates_str:
  "step_templates (JStr s) = Inr (map (\<lambda>(template, tag). with_situation template s) STEPS)"
  by (simp add: step_templates_def STEPS_def format_def str_def)

text \<open>
  The second component of each zipped pair is the whole step, so each piece closes with
  the rendering of a tuple. For the first step that rendering is the following text.
\<close>

lemma str_tuple_first_step:
  "str_tuple (hd STEPS) = ''('' @ [CHR 0x27] @ ''Identify the ethical problem or dilemma in the following situation: {prompt}.'' @ [CHR 0x27] @ '', '' @ [CHR 0x27] @ ''<problem>'' @ [CHR 0x27] @ '')''"
  by (simp add: STEPS_def str_tuple_def repr_str_def repr_char_def printable_def Let_def)

lemma combined_prompt_str:
  "combined_prompt (JStr s) = Inr (py_join ''\<newline>'' (pieces s (map str_tuple STEPS)))"
  by (simp add: combined_prompt_def step_templates_str pieces_def) (simp add: STEPS_def)

text \<open>The whole prompt for the situation \<^verbatim>\<open>x\<close>, piece by piece.\<close>

lemma combined_prompt_x:
  "combined_prompt (JStr ''x'') = Inr (py_join ''\<newline>''
     [''Identify the ethical problem or dilemma in the following situation: x.\<newline>('' @ [CHR 0x27] @ ''Identify the ethical problem or dilemma in the following situation: {prompt}.'' @ [CHR 0x27] @ '', '' @ [CHR 0x27] @ ''<problem>'' @ [CHR 0x27] @ '')'',
      ''Apply relevant ethical codes, principles, or frameworks to the identified problem\<newline>('' @ [CHR 0x27] @ ''Apply relevant ethical codes, principles, or frameworks to the identified problem'' @ [CHR 0x27] @ '', '' @ [CHR 0x27] @ ''<principles>'' @ [CHR 0x27] @ '')'',
      ''Considering the principles, determine the nature and dimensions of the ethical dilemma, considering all stakeholders and potential consequences\<newline>('' @ [CHR 0x27] @ ''Considering the principles, determine the nature and dimensions of the ethical dilemma, considering all stakeholders and potential consequences'' @ [CHR 0x27] @ '', '' @ [CHR 0x27] @ ''<dimensions>'' @ [CHR 0x27] @ '')'',
      ''Given the dimensions, generate potential courses of action to address the ethical dilemma\<newline>('' @ [CHR 0x27] @ ''Given the dimensions, generate potential courses of action to address the ethical dilemma'' @ [CHR 0x27] @ '', '' @ [CHR 0x27] @ ''<actions>'' @ [CHR 0x27] @ '')'',
      ''For each course of action, what are the potential consequences, and how do they align with the principles?\<newline>('' @ [CHR 0x27] @ ''For each course of action, what are the potential consequences, and how do they align with the principles?'' @ [CHR 0x27] @ '', '' @ [CHR 0x27] @ ''<consequences>'' @ [CHR 0x27] @ '')'',
      ''Based on the analysis, what is the most ethically justifiable course of action, and why does it align with the relevant principles and minimize harm to stakeholders?\<newline>('' @ [CHR 0x27] @ ''Based on the analysis, what is the most ethically justifiable course of action, and why does it align with the relevant principles and minimize harm to stakeholders?'' @ [CHR 0x27] @ '', '' @ [CHR 0x27] @ ''<answer>'' @ [CHR 0x27] @ '')''])"
  by (simp add: combined_prompt_def step_templates_def STEPS_def format_def str_def
      str_tuple_def repr_str_def repr_char_def printable_def Let_def)

lemma prompts_ethical_analysis:
  "prompts (fst (ethical_analysis p c)) =
     (case combined_prompt p of Inl e \<Rightarrow> [] | Inr text \<Rightarrow> [text])"
  by (simp add: ethical_analysis_def Let_def split: sum.splits)

lemma prompts_analyze_ethics:
  "map_of kvs ''situation'' = Some v \<Longrightarrow> truthy v \<Longrightarrow>
   prompts (fst (analyze_ethics c (Inr (JObj kvs)))) = prompts (fst (ethical_analysis v c))"
  by (simp add: analyze_ethics_def get_def dict_get_def prompts_append split: prod.splits)

subsection \<open>The prompt of \<^verbatim>\<open>POST /analysis\<close>\<close>

text \<open>
  For every non-empty situation string the one prompt submitted is the six pieces joined
  with newlines, each piece closing with the rendering of a whole step tuple.
\<close>

lemma analysis_prompt:
  assumes "s \<noteq> []" and "map_of kvs ''situation'' = Some (JStr s)"
  shows "prompts (fst (analyze_ethics CLIENT (Inr (JObj kvs)))) =
     [py_join ''\<newline>'' (pieces s (map str_tuple STEPS))]"
  using assms
  by (simp add: prompts_analyze_ethics prompts_ethical_analysis combined_prompt_str)

text \<open>With the tags in place of the tuples, the pieces would close as the claim says.\<close>

lemma tagged_prompt_x:
  "tagged_prompt ''x'' = py_join ''\<newline>''
     [''Identify the ethical problem or dilemma in the following situation: x.\<newline><problem>'',
      ''Apply relevant ethical codes, principles, or frameworks to the identified problem\<newline><principles>'',
      ''Considering the principles, determine the nature and dimensions of the ethical dilemma, considering all stakeholders and potential consequences\<newline><dimensions>'',
      ''Given the dimensions, generate potential courses of action to address the ethical dilemma\<newline><actions>'',
      ''For each course of action, what are the potential consequences, and how do they align with the principles?\<newline><consequences>'',
      ''Based on the analysis, what is the most ethically justifiable course of action, and why does it align with the relevant principles and minimize harm to stakeholders?\<newline><answer>'']"
  by (simp add: tagged_prompt_def pieces_def STEPS_def)

text \<open>
  Claim C1 says that each substituted template is followed by a newline and the tag of
  its step. With the body \<^verbatim>\<open>{"situation": "x"}\<close> the prompt submitted is the text below:
  after the newline of each piece comes the rendering of the whole \<^verbatim>\<open>(template, tag)\<close>
  tuple, the unsubstituted template included, and not the tag. The prompt is neither the
  concatenation the claim describes nor the same pieces joined with newlines.
\<close>

theorem analysis_prompt_renders_tuple:
  "prompts (fst (analyze_ethics quiet_client (Inr (JObj [(''situation'', JStr ''x'')])))) =
     [py_join ''\<newline>''
       [''Identify the ethical problem or dilemma in the following situation: x.\<newline>('' @ [CHR 0x27] @ ''Identify the ethical problem or dilemma in the following situation: {prompt}.'' @ [CHR 0x27] @ '', '' @ [CHR 0x27] @ ''<problem>'' @ [CHR 0x27] @ '')'',
        ''Apply relevant ethical codes, principles, or frameworks to the identified problem\<newline>('' @ [CHR 0x27] @ ''Apply relevant ethical codes, principles, or frameworks to the identified problem'' @ [CHR 0x27] @ '', '' @ [CHR 0x27] @ ''<principles>'' @ [CHR 0x27] @ '')'',
        ''Considering the principles, determine the nature and dimensions of the ethical dilemma, considering all stakeholders and potential consequences\<newline>('' @ [CHR 0x27] @ ''Considering the principles, determine the nature and dimensions of the ethical dilemma, considering all stakeholders and potential consequences'' @ [CHR 0x27] @ '', '' @ [CHR 0x27] @ ''<dimensions>'' @ [CHR 0x27] @ '')'',
        ''Given the dimensions, generate potential courses of action to address the ethical dilemma\<newline>('' @ [CHR 0x27] @ ''Given the dimensions, generate potential courses of action to address the ethical dilemma'' @ [CHR 0x27] @ '', '' @ [CHR 0x27] @ ''<actions>'' @ [CHR 0x27] @ '')'',
        ''For each course of action, what are the potential consequences, and how do they align with the principles?\<newline>('' @ [CHR 0x27] @ ''For each course of action, what are the potential consequences, and how do they align with the principles?'' @ [CHR 0x27] @ '', '' @ [CHR 0x27] @ ''<consequences>'' @ [CHR 0x27] @ '')'',
        ''Based on the analysis, what is the most ethically justifiable course of action, and why does it align with the relevant principles and minimize harm to stakeholders?\<newline>('' @ [CHR 0x27] @ ''Based on the analysis, what is the most ethically justifiable course of action, and why does it align with the relevant principles and minimize harm to stakeholders?'' @ [CHR 0x27] @ '', '' @ [CHR 0x27] @ ''<answer>'' @ [CHR 0x27] @ '')'']] \<and>
   prompts (fst (analyze_ethics quiet_client (Inr (JObj [(''situation'', JStr ''x'')])))) \<noteq>
     [claimed_prompt ''x''] \<and>
   prompts (fst (analyze_ethics quiet_client (Inr (JObj [(''situation'', JStr ''x'')])))) \<noteq>
     [tagged_prompt ''x'']"
proof -
  have p: "prompts (fst (analyze_ethics quiet_client (Inr (JObj [(''situation'', JStr ''x'')])))) =
      (case combined_prompt (JStr ''x'') of Inl e \<Rightarrow> [] | Inr text \<Rightarrow> [text])"
    by (simp add: prompts_analyze_ethics prompts_ethical_analysis)
  have c: "claimed_prompt ''x'' =
      ''Identify the ethical problem or dilemma in the following situation: x.\<newline><problem>'' @
      concat (map (\<lambda>(template, tag). with_situation template ''x'' @ ''\<newline>'' @ tag) (tl STEPS))"
    by (simp add: claimed_prompt_def STEPS_def)
  show ?thesis
    unfolding p combined_prompt_x tagged_prompt_x c
    by simp
qed

subsection \<open>When the model call raises\<close>

text \<open>
  \<^verbatim>\<open>ethical_analysis\<close> catches the exception itself and returns a dict, which
  \<^verbatim>\<open>analyze_ethics\<close> passes to \<^verbatim>\<open>jsonify\<close> with no status of its own.
\<close>

lemma analysis_client_raises:
  assumes "map_of kvs ''situation'' = Some v" and "truthy v"
    and "combined_prompt v = Inr text"
    and "CLIENT \<lparr>model = ''claude-3-haiku-20240307'', max_tokens = 2048, temperature = ''0.2'',
           system = Some SYSTEM_ROLE, messages = [\<lparr>role = ''user'', content = text\<rparr>]\<rparr> = Inl e"
  shows "snd (analyze_ethics CLIENT (Inr (JObj kvs))) =
     JsonResponse 200
       (JObj [(''error'', JObj [(''message'', JStr (exn_str e)),
                               (''type'', JStr ''internal_server_error'')])])"
  using assms
  by (simp add: analyze_ethics_def get_def dict_get_def ethical_analysis_def Let_def
      split: prod.splits)

text \<open>
  \<^verbatim>\<open>grade_completion\<close> raises a \<^verbatim>\<open>RuntimeError\<close> instead, which \<^verbatim>\<open>evaluate_completion\<close>
  answers with status 500 and the message of the first exception inside its own.
\<close>

lemma eval_client_raises:
  assumes "map_of kvs ''prompt'' = Some p" and "map_of kvs ''completion'' = Some c"
    and "map_of kvs ''rubric'' = Some r" and "truthy p" and "truthy c" and "truthy r"
    and "CLIENT \<lparr>model = ''claude-3-opus-20240229'', max_tokens = 256, temperature = ''0.2'',
           system = None, messages = build_grader_prompt c r\<rparr> = Inl e"
  shows "snd (evaluate_completion CLIENT (Inr (JObj kvs))) =
     JsonResponse 500 (JObj [(''error'', JStr (''Error during grading: '' @ exn_str e))])"
  using assms
  by (simp add: evaluate_completion_def fields_def get_def dict_get_def grade_completion_def Let_def)

text \<open>
  Claim C2 says that \<^verbatim>\<open>POST /analysis\<close> answers a raising model call with status 500.
  With the body \<^verbatim>\<open>{"situation": "x"}\<close> and a client that raises \<^verbatim>\<open>Exception("boom")\<close>, the
  response carries the message under \<^verbatim>\<open>error\<close>, typed \<^verbatim>\<open>internal_server_error\<close>, and has
  status 200.
\<close>

theorem analysis_client_failure_status_200:
  "snd (analyze_ethics failing_client (Inr (JObj [(''situation'', JStr ''x'')]))) =
     JsonResponse 200
       (JObj [(''error'', JObj [(''message'', JStr ''boom''),
                               (''type'', JStr ''internal_server_error'')])])"
  by (simp add: analysis_client_raises [where e = "Exn ''Exception'' ''boom''"]
      combined_prompt_str failing_client_def)

subsection \<open>The shape of the failure responses\<close>

text \<open>A body that is not a JSON object has no \<^verbatim>\<open>get\<close>: both endpoints answer 500.\<close>

lemma analyze_ethics_not_dict:
  "type_name data \<noteq> ''dict'' \<Longrightarrow>
   snd (analyze_ethics CLIENT (Inr data)) =
     JsonResponse 500
       (JObj [(''type'', JStr ''error''),
              (''error'', JObj [(''type'', JStr ''internal_server_error''),
                               (''message'', JStr (exn_str (attribute_error (type_name data) ''get'')))])])"
  by (cases data) (simp_all add: analyze_ethics_def get_def)

lemma evaluate_completion_not_dict:
  "type_name data \<noteq> ''dict'' \<Longrightarrow>
   snd (evaluate_completion CLIENT (Inr data)) =
     JsonResponse 500 (JObj [(''error'', JStr (exn_str (attribute_error (type_name data) ''get'')))])"
  by (cases data) (simp_all add: evaluate_completion_def fields_def get_def)

text \<open>
  Claim C3, as amended. Every response of \<^verbatim>\<open>POST /analysis\<close> with status 400 or 500 has
  the shape \<^verbatim>\<open>{type, error: {type, message}}\<close>; every response of \<^verbatim>\<open>POST /eval\<close> with status
  400 or 500 is \<^verbatim>\<open>{error: message}\<close>, the message a string, with no \<^verbatim>\<open>type\<close> field.
\<close>

theorem failure_shapes:
  "(status (snd (analyze_ethics CLIENT request_json)) \<in> {400, 500} \<longrightarrow>
      enveloped (snd (analyze_ethics CLIENT request_json))) \<and>
   (status (snd (evaluate_completion CLIENT request_json)) \<in> {400, 500} \<longrightarrow>
      flat_error (snd (evaluate_completion CLIENT request_json)) \<and>
      \<not> enveloped (snd (evaluate_completion CLIENT request_json)))"
  by (auto simp add: analyze_ethics_def evaluate_completion_def envelope_def has_key_def Let_def
      split: sum.splits prod.splits)

text \<open>
  The amended claim C3 at a body with no field (status 400 on both endpoints) and at the
  body \<^verbatim>\<open>null\<close> (status 500 on both).
\<close>

theorem failure_shapes_witness:
  "enveloped (snd (analyze_ethics quiet_client (Inr (JObj [])))) \<and>
   flat_error (snd (evaluate_completion quiet_client (Inr (JObj [])))) \<and>
   enveloped (snd (analyze_ethics quiet_client (Inr JNull))) \<and>
   flat_error (snd (evaluate_completion quiet_client (Inr JNull)))"
proof -
  have a: "status (snd (analyze_ethics quiet_client (Inr (JObj [])))) = 400"
    by (simp add: analyze_ethics_def get_def dict_get_def)
  have b: "status (snd (evaluate_completion quiet_client (Inr (JObj [])))) = 400"
    by (simp add: evaluate_completion_def fields_def get_def dict_get_def)
  have c: "status (snd (analyze_ethics quiet_client (Inr JNull))) = 500"
    by (simp add: analyze_ethics_def get_def)
  have d: "status (snd (evaluate_completion quiet_client (Inr JNull))) = 500"
    by (simp add: evaluate_completion_def fields_def get_def)
  show ?thesis
    using failure_shapes [of quiet_client "Inr (JObj [])"]
      failure_shapes [of quiet_client "Inr JNull"] a b c d
    by simp
qed

text \<open>
  Claim C3, as stated, fails on \<^verbatim>\<open>POST /eval\<close>: the 400 response to a body with no
  field does not have the envelope shape.
\<close>

theorem eval_refusal_not_enveloped:
  "status (snd (evaluate_completion quiet_client (Inr (JObj [])))) = 400 \<and>
   \<not> enveloped (snd (evaluate_completion quiet_client (Inr (JObj []))))"
  by (simp add: evaluate_completion_def fields_def get_def dict_get_def envelope_def has_key_def)

subsection \<open>\<^verbatim>\<open>GET /api/steps\<close>\<close>

text \<open>
  Claim C4. \<^verbatim>\<open>GET /api/steps\<close> returns exactly six \<^verbatim>\<open>[instruction, tag]\<close> pairs whose tags
  are, in order, \<^verbatim>\<open><problem>\<close>, \<^verbatim>\<open><principles>\<close>, \<^verbatim>\<open><dimensions>\<close>, \<^verbatim>\<open><actions>\<close>,
  \<^verbatim>\<open><consequences>\<close>, \<^verbatim>\<open><answer>\<close>, and it does nothing else: no call of the model client.
\<close>

theorem get_steps_six_pairs:
  "\<exists>instructions. length instructions = 6 \<and>
     get_steps =
       ([], JsonResponse 200
              (JArr (map (\<lambda>(i, t). JArr [JStr i, JStr t])
                 (zip instructions
                    [''<problem>'', ''<principles>'', ''<dimensions>'', ''<actions>'',
                     ''<consequences>'', ''<answer>'']))))"
  by (rule exI [of _ "map (\<lambda>(step, tag). ''<prompt>'' @ step @ ''</prompt>'') STEPS"])
     (simp add: get_steps_def STEPS_def)

subsection \<open>Refused bodies\<close>





lemma evaluate_completion_refusal:
  "\<not> truthy (dict_get kvs ''prompt'') \<or> \<not> truthy (dict_get kvs ''completion'')
     \<or> \<not> truthy (dict_get kvs ''rubric'') \<Longrightarrow>
   evaluate_completion CLIENT (Inr (JObj kvs)) = refusal"
  by (auto simp add: evaluate_completion_def fields_def get_def refusal_def)

lemma map_of_removed: "map_of (filter (\<lambda>kv. fst kv \<noteq> f) kvs) f = None"
  by (induction kvs) auto

text \<open>
  Claim C10. When \<^verbatim>\<open>prompt\<close>, \<^verbatim>\<open>completion\<close> or \<^verbatim>\<open>rubric\<close> is present with a falsy value,
  \<^verbatim>\<open>POST /eval\<close> does and answers exactly what it does for the same body with that field
  removed: the 400 response, and no call of the model client.
\<close>

theorem eval_falsy_field:
  assumes "f \<in> {''prompt'', ''completion'', ''rubric''}"
    and "map_of kvs f = Some v" and "\<not> truthy v"
  shows "evaluate_completion CLIENT (Inr (JObj kvs)) =
           evaluate_completion CLIENT (Inr (JObj (filter (\<lambda>kv. fst kv \<noteq> f) kvs))) \<and>
         snd (evaluate_completion CLIENT (Inr (JObj kvs))) =
           JsonResponse 400 (JObj [(''error'', JStr ''Prompt, completion, or rubric not provided'')]) \<and>
         calls (fst (evaluate_completion CLIENT (Inr (JObj kvs)))) = []"
proof -
  have present: "\<not> truthy (dict_get kvs f)"
    using assms(2,3) by (simp add: dict_get_def)
  have removed: "\<not> truthy (dict_get (filter (\<lambda>kv. fst kv \<noteq> f) kvs) f)"
    by (simp add: dict_get_def map_of_removed)
  have l: "evaluate_completion CLIENT (Inr (JObj kvs)) = refusal"
    using assms(1) present by (auto simp add: evaluate_completion_refusal)
  have r: "evaluate_completion CLIENT (Inr (JObj (filter (\<lambda>kv. fst kv \<noteq> f) kvs))) = refusal"
    using assms(1) removed by (auto simp add: evaluate_completion_refusal)
  show ?thesis
    by (simp add: l r refusal_def)
qed

text \<open>Claim C10 at a body whose completion is the empty string.\<close>

theorem eval_falsy_field_witness:
  "evaluate_completion x_client
     (Inr (JObj [(''prompt'', JStr ''p''), (''completion'', JStr []), (''rubric'', JStr ''r'')])) =
   evaluate_completion x_client
     (Inr (JObj [(''prompt'', JStr ''p''), (''rubric'', JStr ''r'')])) \<and>
   status (snd (evaluate_completion x_client
     (Inr (JObj [(''prompt'', JStr ''p''), (''completion'', JStr []), (''rubric'', JStr ''r'')])))) = 400 \<and>
   calls (fst (evaluate_completion x_client
     (Inr (JObj [(''prompt'', JStr ''p''), (''completion'', JStr []), (''rubric'', JStr ''r'')])))) = []"
proof -
  have "evaluate_completion x_client
      (Inr (JObj [(''prompt'', JStr ''p''), (''completion'', JStr []), (''rubric'', JStr ''r'')])) =
    evaluate_completion x_client
      (Inr (JObj (filter (\<lambda>kv. fst kv \<noteq> ''completion'')
         [(''prompt'', JStr ''p''), (''completion'', JStr []), (''rubric'', JStr ''r'')]))) \<and>
    snd (evaluate_completion x_client
      (Inr (JObj [(''prompt'', JStr ''p''), (''completion'', JStr []), (''rubric'', JStr ''r'')]))) =
    JsonResponse 400 (JObj [(''error'', JStr ''Prompt, completion, or rubric not provided'')]) \<and>
    calls (fst (evaluate_completion x_client
      (Inr (JObj [(''prompt'', JStr ''p''), (''completion'', JStr []), (''rubric'', JStr ''r'')])))) = []"
    by (rule eval_falsy_field [where v = "JStr []"]) simp_all
  then show ?thesis
    by (elim conjE) simp
qed

subsection \<open>A graded completion\<close>

text \<open>
  Claim C7, as amended. When \<^verbatim>\<open>prompt\<close>, \<^verbatim>\<open>completion\<close> and \<^verbatim>\<open>rubric\<close> are all present and
  truthy (for strings: not empty) and the model client answers the grading request with
  a sequence of text segments, \<^verbatim>\<open>POST /eval\<close> returns \<^verbatim>\<open>{response: s}\<close> with status 200,
  where \<open>s\<close> is the concatenation of the segments in their order.
\<close>

theorem eval_joins_segments:
  assumes "map_of kvs ''prompt'' = Some p" and "map_of kvs ''completion'' = Some c"
    and "map_of kvs ''rubric'' = Some r" and "truthy p" and "truthy c" and "truthy r"
    and "CLIENT \<lparr>model = ''claude-3-opus-20240229'', max_tokens = 256, temperature = ''0.2'',
           system = None, messages = build_grader_prompt c r\<rparr> =
         Inr (ContentList (map TextBlock segments))"
  shows "snd (evaluate_completion CLIENT (Inr (JObj kvs))) =
     JsonResponse 200 (JObj [(''response'', JStr (concat segments))])"
  using assms
  by (simp add: evaluate_completion_def fields_def get_def dict_get_def grade_completion_def
      Let_def collect_text py_join_empty)

text \<open>The amended claim C7 at a client that answers the single segment \<^verbatim>\<open>X\<close>.\<close>

theorem eval_joins_segments_witness:
  "snd (evaluate_completion x_client
     (Inr (JObj [(''prompt'', JStr ''p''), (''completion'', JStr ''c''), (''rubric'', JStr ''r'')]))) =
   JsonResponse 200 (JObj [(''response'', JStr ''X'')])"
  using eval_joins_segments [of
      "[(''prompt'', JStr ''p''), (''completion'', JStr ''c''), (''rubric'', JStr ''r'')]"
      "JStr ''p''" "JStr ''c''" "JStr ''r''" x_client "[''X'']"]
  by (simp add: x_client_def)

text \<open>
  Claim C7, as stated, fails when a field is present and empty: with the prompt \<^verbatim>\<open>""\<close>
  and a client that answers \<^verbatim>\<open>X\<close>, the response is the 400 refusal, not
  \<^verbatim>\<open>{response: "X"}\<close>.
\<close>

theorem eval_empty_prompt_refused:
  "snd (evaluate_completion x_client
     (Inr (JObj [(''prompt'', JStr []), (''completion'', JStr ''c''), (''rubric'', JStr ''r'')]))) \<noteq>
   JsonResponse 200 (JObj [(''response'', JStr ''X'')])"
  by (simp add: evaluate_completion_def fields_def get_def dict_get_def)

subsection \<open>The static files\<close>

text \<open>
  Where the path is empty or names nothing, and \<^verbatim>\<open>index.html\<close> is a regular file of the
  static folder, the index document is sent.
\<close>

lemma serve_fallback:
  assumes "path = [] \<or> fs (static_folder @ ''/'' @ path) = None"
    and "fs (join static_folder ''index.html'') = Some (File data)"
    and "static_folder \<noteq> []"
  shows "snd (serve static_folder fs path) = FileResponse data"
  using assms
  by (auto simp add: serve_def exists_def send_from_directory_def safe_join_def normpath_def)

text \<open>A path that names a regular file, and that \<^verbatim>\<open>safe_join\<close> leaves as it is, is sent.\<close>

lemma serve_asset:
  assumes "path \<noteq> []" and "fs (static_folder @ ''/'' @ path) = Some (File data)"
    and "safe_join static_folder path = Some (static_folder @ ''/'' @ path)"
  shows "snd (serve static_folder fs path) = FileResponse data"
  using assms by (simp add: serve_def exists_def send_from_directory_def)

text \<open>
  Claim C8 says that every path that names no existing file of the static folder gets
  the index document and never a 404. With the static folder \<^verbatim>\<open>/app/static\<close> holding the
  file \<^verbatim>\<open>index.html\<close> and the directory \<^verbatim>\<open>assets\<close>, the request \<^verbatim>\<open>GET /assets\<close> names no
  file; \<^verbatim>\<open>os.path.exists\<close> holds for the directory, \<^verbatim>\<open>send_from_directory\<close> finds no
  regular file, and the response is 404.
\<close>

theorem serve_directory_not_found:
  "snd (serve ''/app/static'' asset_tree ''assets'') = HttpError 404"
  by (simp add: serve_def exists_def asset_tree_def send_from_directory_def safe_join_def
      normpath_def join_def)

text \<open>In the same tree, the root path and an unknown path get the index document.\<close>

lemma serve_asset_tree_fallback:
  "snd (serve ''/app/static'' asset_tree []) = FileResponse ''<html></html>''"
  "snd (serve ''/app/static'' asset_tree ''about'') = FileResponse ''<html></html>''"
  by (simp_all add: serve_fallback asset_tree_def join_def)

subsection \<open>Start of the module\<close>

text \<open>
  Claim C9. When \<^verbatim>\<open>ANTHROPIC_API_KEY\<close> is absent at the start of the module (from the
  environment of the process, and from the \<^verbatim>\<open>.env\<close> file that \<^verbatim>\<open>load_dotenv\<close> reads into
  it), the module raises \<^verbatim>\<open>ValueError\<close> and builds no client; when the variable is
  present, the client is built with its value, the environment of the process coming
  before the file.
\<close>

theorem module_start_key:
  "(environ ''ANTHROPIC_API_KEY'' = None \<and> dotenv ''ANTHROPIC_API_KEY'' = None \<longrightarrow>
      module_start dotenv environ =
        Inl (Exn ''ValueError'' ''Anthropic API key not found in environment variables.'')) \<and>
   (\<forall>k. environ ''ANTHROPIC_API_KEY'' = Some k \<longrightarrow>
      module_start dotenv environ = Inr (Anthropic k)) \<and>
   (\<forall>k. environ ''ANTHROPIC_API_KEY'' = None \<and> dotenv ''ANTHROPIC_API_KEY'' = Some k \<longrightarrow>
      module_start dotenv environ = Inr (Anthropic k))"
proof (intro conjI allI impI)
  assume "environ ''ANTHROPIC_API_KEY'' = None \<and> dotenv ''ANTHROPIC_API_KEY'' = None"
  then have "load_dotenv dotenv environ ''ANTHROPIC_API_KEY'' = None"
    by (simp add: load_dotenv_def map_add_def)
  then show "module_start dotenv environ =
      Inl (Exn ''ValueError'' ''Anthropic API key not found in environment variables.'')"
    by (simp add: module_start_def)
next
  fix k
  assume "environ ''ANTHROPIC_API_KEY'' = Some k"
  then have "load_dotenv dotenv environ ''ANTHROPIC_API_KEY'' = Some k"
    by (simp add: load_dotenv_def map_add_def)
  then show "module_start dotenv environ = Inr (Anthropic k)"
    by (simp add: module_start_def)
next
  fix k
  assume "environ ''ANTHROPIC_API_KEY'' = None \<and> dotenv ''ANTHROPIC_API_KEY'' = Some k"
  then have "load_dotenv dotenv environ ''ANTHROPIC_API_KEY'' = Some k"
    by (simp add: load_dotenv_def map_add_def)
  then show "module_start dotenv environ = Inr (Anthropic k)"
    by (simp add: module_start_def)
qed

text \<open>
  Claim C9 at an empty environment, at an environment that sets the key, and at a
  \<^verbatim>\<open>.env\<close> file that sets it.
\<close>

theorem module_start_key_witness:
  "module_start Map.empty Map.empty =
     Inl (Exn ''ValueError'' ''Anthropic API key not found in environment variables.'') \<and>
   module_start Map.empty [''ANTHROPIC_API_KEY'' \<mapsto> ''sk-1''] = Inr (Anthropic ''sk-1'') \<and>
   module_start [''ANTHROPIC_API_KEY'' \<mapsto> ''sk-2''] Map.empty = Inr (Anthropic ''sk-2'')"
  using module_start_key [of Map.empty Map.empty]
    module_start_key [of "[''ANTHROPIC_API_KEY'' \<mapsto> ''sk-1'']" Map.empty]
    module_start_key [of Map.empty "[''ANTHROPIC_API_KEY'' \<mapsto> ''sk-2'']"]
  by simp

end
